theory Spec2Isabelle
  imports Main
begin

section \<open>Python values\<close>

text \<open>
  The library handles JSON-like documents built from dynamically typed Python values.
  A value is modelled by the datatype \<open>pyval\<close>. Containers whose object identity the
  code never exploits are carried by value (\<open>PList\<close>, \<open>PDict\<close>, \<open>PTuple\<close>); a
  list object that the code shares between several owners (the context list of
  \<open>ContextBuilder\<close>) lives in a store and is referred to by its address
  (\<open>PListRef\<close>). A dictionary is an association list: Python dictionaries keep the
  insertion order of their keys, and the code depends on that order.
\<close>

type_synonym addr = nat

text \<open>A naive \<open>datetime.datetime\<close>: year, month, day, hour, minute, second, microsecond.\<close>

datatype datetime = Datetime int int int int int int int

text \<open>A Python float is only ever carried around, never computed with.\<close>

datatype pyfloat = Finite int int | Infinite bool | NaN

datatype pyval =
    PNone
  | PBool bool
  | PInt int
  | PFloat pyfloat
  | PStr string
  | PList "pyval list"
  | PDict "(string \<times> pyval) list"
  | PTuple "pyval list"
  | PDatetime datetime
  | PObject string
  | PListRef addr

type_synonym pydict = "(string \<times> pyval) list"

text \<open>
  The classes that \<open>isinstance\<close> is asked about. \<open>PObject c\<close> is an instance of a
  class named \<open>c\<close> that derives from none of the others. In Python \<open>bool\<close> is a
  subclass of \<open>int\<close>.
\<close>

datatype pyclass =
    C_NoneType | C_bool | C_int | C_float | C_str | C_list | C_dict | C_tuple
  | C_datetime | C_other string

fun class_of :: "pyval \<Rightarrow> pyclass" where
  "class_of PNone = C_NoneType"
| "class_of (PBool b) = C_bool"
| "class_of (PInt i) = C_int"
| "class_of (PFloat f) = C_float"
| "class_of (PStr s) = C_str"
| "class_of (PList xs) = C_list"
| "class_of (PDict kvs) = C_dict"
| "class_of (PTuple xs) = C_tuple"
| "class_of (PDatetime d) = C_datetime"
| "class_of (PObject c) = C_other c"
| "class_of (PListRef a) = C_list"

definition issubclass :: "pyclass \<Rightarrow> pyclass \<Rightarrow> bool" where
  "issubclass c d = (c = d \<or> (c = C_bool \<and> d = C_int))"

text \<open>\<open>isinstance(v, (c1, ..., cn))\<close>.\<close>

definition isinstance :: "pyval \<Rightarrow> pyclass list \<Rightarrow> bool" where
  "isinstance v cs = list_ex (issubclass (class_of v)) cs"

subsection \<open>Dictionaries\<close>

text \<open>\<open>d[k] = v\<close>: an existing key keeps its position, a new key goes last.\<close>

fun setitem :: "pydict \<Rightarrow> string \<Rightarrow> pyval \<Rightarrow> pydict" where
  "setitem [] k v = [(k, v)]"
| "setitem ((k', v') # d) k v =
     (if k' = k then (k, v) # d else (k', v') # setitem d k v)"

text \<open>\<open>d |= other\<close>: the items of \<open>other\<close> are stored one after the other.\<close>

fun dict_update :: "pydict \<Rightarrow> pydict \<Rightarrow> pydict" where
  "dict_update d [] = d"
| "dict_update d ((k, v) # other) = dict_update (setitem d k v) other"

text \<open>\<open>d.get(k)\<close> is \<open>map_of d k\<close>; \<open>k in d\<close> is membership in \<open>keys d\<close>.\<close>

definition keys :: "pydict \<Rightarrow> string list" where
  "keys d = map fst d"

section \<open>Errors\<close>

datatype error =
    NgsiUnmatchedAttributeTypeError
  | NgsiMissingIdError
  | NgsiMissingTypeError
  | NgsiMissingContextError
  | NgsiAlreadyExistsError
  | NgsiApiError string
  | HTTPError int
  | ValueError string
  | KeyError string
  | TypeError
  | JSONDecodeError

section \<open>Constants and helpers of modules outside the sources\<close>

text \<open>
  Modelled from the spec: the constants of \<open>model/constants.py\<close>, which is not among
  the sources. The spec names the discriminators \<open>"Property"\<close> and \<open>"Relationship"\<close>
  and the metadata keys \<open>unitCode\<close>, \<open>observedAt\<close>, \<open>datasetId\<close> and \<open>@context\<close>.
\<close>

definition AttrType_PROP :: string where
  "AttrType_PROP = ''Property''"

definition AttrType_REL :: string where
  "AttrType_REL = ''Relationship''"

definition META_ATTR_UNITCODE :: string where
  "META_ATTR_UNITCODE = ''unitCode''"

definition META_ATTR_OBSERVED_AT :: string where
  "META_ATTR_OBSERVED_AT = ''observedAt''"

definition META_ATTR_DATASET_ID :: string where
  "META_ATTR_DATASET_ID = ''datasetId''"


text \<open>
  Modelled from the spec: \<open>urnprefix\<close> of \<open>orionldclient.utils\<close>, which is not among the
  sources. The spec's UrnNormalizer "normalizes bare identifiers into the
  \<open>urn:ngsi-ld:<Type>:<id>\<close> form; idempotent on already-prefixed ids".
\<close>

definition NID_PREFIX :: string where
  "NID_PREFIX = ''urn:ngsi-ld:''"

definition startswith :: "string \<Rightarrow> string \<Rightarrow> bool" where
  "startswith s p = (take (length p) s = p)"

definition urnprefix :: "string \<Rightarrow> string" where
  "urnprefix s = (if startswith s NID_PREFIX then s else NID_PREFIX @ s)"

section \<open>The attribute builders (\<open>model/_attribute.py\<close>)\<close>

text \<open>
  \<open>iso8601.from_datetime\<close> is not among the sources; the builders take it as the
  parameter \<open>from_datetime\<close>. Optional arguments whose default is \<open>None\<close> are options;
  \<open>userdata\<close> defaults to the empty dictionary. A raised exception is the left
  summand of the result.
\<close>

definition normalize_observedat :: "(datetime \<Rightarrow> string) \<Rightarrow> pyval \<Rightarrow> pyval" where
  "normalize_observedat from_datetime observedat =
     (case observedat of
        PDatetime d \<Rightarrow> PStr (from_datetime d)
      | _ \<Rightarrow> observedat)"

definition build_property ::
  "(datetime \<Rightarrow> string) \<Rightarrow> pyval \<Rightarrow> string option \<Rightarrow> pyval option \<Rightarrow> string option
     \<Rightarrow> pydict \<Rightarrow> error + pydict" where
  "build_property from_datetime v unitcode observedat datasetid userdata =
     (let property = setitem [] ''type'' (PStr AttrType_PROP) in
      if isinstance v [C_int, C_float, C_bool, C_str, C_list, C_dict] then
        (let property = setitem property ''value'' v;
             property = (case unitcode of
                           None \<Rightarrow> property
                         | Some u \<Rightarrow> setitem property META_ATTR_UNITCODE (PStr u));
             property = (case observedat of
                           None \<Rightarrow> property
                         | Some t \<Rightarrow> setitem property META_ATTR_OBSERVED_AT
                                      (normalize_observedat from_datetime t));
             property = (case datasetid of
                           None \<Rightarrow> property
                         | Some i \<Rightarrow> setitem property META_ATTR_DATASET_ID
                                      (PStr (urnprefix i)));
             property = (if userdata \<noteq> [] then dict_update property userdata
                         else property)
         in Inr property)
      else Inl NgsiUnmatchedAttributeTypeError)"

definition build_relationship ::
  "(datetime \<Rightarrow> string) \<Rightarrow> string \<Rightarrow> pyval option \<Rightarrow> pydict \<Rightarrow> pydict" where
  "build_relationship from_datetime v observedat userdata =
     (let property = setitem [] ''type'' (PStr AttrType_REL);
          property = setitem property ''object'' (PStr (urnprefix v));
          property = (case observedat of
                        None \<Rightarrow> property
                      | Some t \<Rightarrow> setitem property META_ATTR_OBSERVED_AT
                                   (normalize_observedat from_datetime t));
          property = (if userdata \<noteq> [] then dict_update property userdata
                      else property)
      in property)"

text \<open>
  A formatter to run the builders on concrete inputs: date and time to the second, as in
  \<open>2021-10-08T12:05:00Z\<close>.
\<close>

fun show_nat_pad :: "nat \<Rightarrow> nat \<Rightarrow> string" where
  "show_nat_pad 0 n = []"
| "show_nat_pad (Suc w) n = show_nat_pad w (n div 10) @ [''0123456789'' ! (n mod 10)]"

fun isoformat_seconds :: "datetime \<Rightarrow> string" where
  "isoformat_seconds (Datetime y mo d h mi s us) =
     show_nat_pad 4 (nat y) @ ''-'' @ show_nat_pad 2 (nat mo) @ ''-'' @ show_nat_pad 2 (nat d)
     @ ''T'' @ show_nat_pad 2 (nat h) @ '':'' @ show_nat_pad 2 (nat mi) @ '':''
     @ show_nat_pad 2 (nat s) @ ''Z''"

text \<open>
  The values the spec accepts for a Property: "one of {int, float, bool, string, list,
  map}". This predicate follows the spec's words; \<open>build_property\<close> above follows the
  source's \<open>isinstance\<close> test.
\<close>

fun spec_property_value :: "pyval \<Rightarrow> bool" where
  "spec_property_value (PInt i) = True"
| "spec_property_value (PFloat f) = True"
| "spec_property_value (PBool b) = True"
| "spec_property_value (PStr s) = True"
| "spec_property_value (PList xs) = True"
| "spec_property_value (PListRef a) = True"
| "spec_property_value (PDict d) = True"
| "spec_property_value PNone = False"
| "spec_property_value (PTuple xs) = False"
| "spec_property_value (PDatetime d) = False"
| "spec_property_value (PObject c) = False"

section \<open>The entities endpoint (\<open>api/entities.py\<close>)\<close>

text \<open>
  The endpoint talks to the broker through \<open>self._session\<close>. The broker and the
  transport are the environment: a state of type \<open>'w\<close> and a function \<open>session\<close> from a
  request and a state to a response and a new state. The model threads a \<open>net\<close> through
  every operation: the state of the environment and the log \<open>sent\<close> of the requests
  issued so far, oldest first. An operation returns its result, a raised exception being
  the left summand, and the new \<open>net\<close>.
\<close>

datatype http_verb = GET | POST | DELETE

record request =
  verb :: http_verb
  url :: string
  json :: "pydict option"
  headers :: "(string \<times> string option) list"
  params :: pydict

text \<open>
  A response: its status, its headers and its body decoded as JSON (\<open>None\<close> when the
  body is not JSON, where \<open>r.json()\<close> raises). \<open>response_ok\<close> is the truth value of a
  \<open>requests\<close> response: false for a status from 400 to 599.
\<close>

record response =
  status_code :: int
  response_headers :: "(string \<times> string) list"
  body :: "pyval option"

definition response_ok :: "response \<Rightarrow> bool" where
  "response_ok r = (\<not> (400 \<le> status_code r \<and> status_code r < 600))"

record 'w net =
  world :: 'w
  sent :: "request list"

text \<open>
  The client (\<open>api/client.py\<close>) is not among the sources. The endpoint reads its
  \<open>overwrite\<close> and \<open>ignore_errors\<close> switches and its \<open>session\<close>, and calls its
  \<open>raise_for_status\<close>, which is a field here: \<open>Some e\<close> when the call raises, as it leaves
  a method decorated with \<open>rfc7807_error_handle\<close> (\<open>api/exceptions.py\<close>, not among the
  sources either), \<open>None\<close> when it returns.
\<close>

record 'w client =
  hostname :: string
  port :: nat
  overwrite :: bool
  ignore_errors :: bool
  raise_for_status :: "response \<Rightarrow> error option"
  session :: "request \<Rightarrow> 'w \<Rightarrow> response \<times> 'w"

record 'w entities =
  client :: "'w client"
  base_url :: string

definition session_send :: "'w entities \<Rightarrow> request \<Rightarrow> 'w net \<Rightarrow> response \<times> 'w net" where
  "session_send ep rq n =
     (let (r, w') = session (client ep) rq (world n)
      in (r, \<lparr>world = w', sent = sent n @ [rq]\<rparr>))"

text \<open>
  \<open>Entity\<close> of \<open>ngsildclient.model.entity\<close> is not among the sources. The endpoint reads
  the \<open>id\<close> of an entity and its \<open>_payload\<close>, the body of the POST.
  \<open>Urn.prefix\<close> is \<open>urnprefix\<close> above.
\<close>

record api_entity =
  eid :: string
  payload :: pydict

datatype entity_or_id = AnEntity api_entity | AnId string

definition id_of :: "entity_or_id \<Rightarrow> string" where
  "id_of x = (case x of AnEntity e \<Rightarrow> eid e | AnId s \<Rightarrow> urnprefix s)"

text \<open>\<open>s.rsplit("/", 1)[-1]\<close>: what follows the last slash.\<close>

definition rsplit_last :: "string \<Rightarrow> string" where
  "rsplit_last s = rev (takeWhile (\<lambda>c. c \<noteq> CHR ''/'') (rev s))"

text \<open>\<open>k in v\<close> for a string \<open>k\<close> and a decoded JSON value \<open>v\<close>.\<close>

fun substring_of :: "string \<Rightarrow> string \<Rightarrow> bool" where
  "substring_of k [] = (k = [])"
| "substring_of k (c # s) = (startswith (c # s) k \<or> substring_of k s)"

fun py_in :: "string \<Rightarrow> pyval \<Rightarrow> error + bool" where
  "py_in k (PDict d) = Inr (k \<in> set (keys d))"
| "py_in k (PList xs) = Inr (PStr k \<in> set xs)"
| "py_in k (PStr s) = Inr (substring_of k s)"
| "py_in k v = Inl TypeError"

type_synonym ('w, 'a) outcome = "(error + 'a) \<times> 'w net"

definition delete :: "'w entities \<Rightarrow> entity_or_id \<Rightarrow> 'w net \<Rightarrow> ('w, bool) outcome" where
  "delete ep x n =
     (let i = id_of x;
          (r, n1) = session_send ep
             \<lparr>verb = DELETE, url = base_url ep @ ''/'' @ i, json = None, headers = [],
              params = []\<rparr> n
      in case raise_for_status (client ep) r of
           Some e \<Rightarrow> (Inl e, n1)
         | None \<Rightarrow> (Inr (response_ok r), n1))"

definition exists :: "'w entities \<Rightarrow> entity_or_id \<Rightarrow> 'w net \<Rightarrow> ('w, bool) outcome" where
  "exists ep x n =
     (let i = id_of x;
          (r, n1) = session_send ep
             \<lparr>verb = GET, url = base_url ep @ ''/'' @ i, json = None, headers = [],
              params = []\<rparr> n
      in if response_ok r then
           (case body r of
              None \<Rightarrow> (Inl JSONDecodeError, n1)
            | Some doc \<Rightarrow>
                (case py_in ''@context'' doc of
                   Inl e \<Rightarrow> (Inl e, n1)
                 | Inr b \<Rightarrow> (Inr b, n1)))
         else (Inr False, n1))"

text \<open>
  The part of \<open>create\<close> after the conflict branch: the status check, the
  \<open>Location\<close> header and the comparison of the returned id.
\<close>

definition create_checked ::
  "'w entities \<Rightarrow> api_entity \<Rightarrow> response \<Rightarrow> 'w net \<Rightarrow> ('w, api_entity option) outcome" where
  "create_checked ep e r n1 =
     (case raise_for_status (client ep) r of
        Some err \<Rightarrow> (Inl err, n1)
      | None \<Rightarrow>
          (case map_of (response_headers r) ''Location'' of
             None \<Rightarrow>
               if ignore_errors (client ep) then (Inr None, n1)
               else (Inl (NgsiApiError ''Missing Location header''), n1)
           | Some location \<Rightarrow>
               (let id_returned_from_broker = rsplit_last location
                in if eid e \<noteq> id_returned_from_broker then
                     (Inl (NgsiApiError (''Broker returned wrong id. Expected='' @ eid e
                        @ '' Returned='' @ id_returned_from_broker)), n1)
                   else (Inr (Some e), n1))))"

text \<open>
  \<open>create\<close> and \<open>update\<close> call each other. The recursion is bounded: \<open>create\<close> calls
  \<open>update\<close> with \<open>check_exists = False\<close> only, and that call returns at once.
\<close>

function create ::
    "'w entities \<Rightarrow> api_entity \<Rightarrow> bool \<Rightarrow> bool \<Rightarrow> 'w net \<Rightarrow> ('w, api_entity option) outcome"
  and update :: "'w entities \<Rightarrow> api_entity \<Rightarrow> bool \<Rightarrow> 'w net \<Rightarrow> ('w, api_entity option) outcome"
  where
  "create ep e skip overw n =
     (let (r, n1) = session_send ep
             \<lparr>verb = POST, url = base_url ep @ ''/'', json = Some (payload e), headers = [],
              params = []\<rparr> n
      in if status_code r = 409 then
           (if skip then (Inr None, n1)
            else if overw \<or> overwrite (client ep) then update ep e False n1
            else create_checked ep e r n1)
         else create_checked ep e r n1)"
| "update ep e check_exists n =
     (if check_exists then
        (case exists ep (AnEntity e) n of
           (Inl err, n1) \<Rightarrow> (Inl err, n1)
         | (Inr found, n1) \<Rightarrow>
             if found then
               (case delete ep (AnEntity e) n1 of
                  (Inl err, n2) \<Rightarrow> (Inl err, n2)
                | (Inr removed, n2) \<Rightarrow> create ep e False False n2)
             else (Inr None, n1))
      else (Inr None, n))"
  by pat_completeness auto
termination
  by (relation "measure (\<lambda>x. case x of
        Inl (ep, e, skip, overw, n) \<Rightarrow> 1
      | Inr (ep, e, check_exists, n) \<Rightarrow> if check_exists then 2 else 0)") auto

declare create.simps [simp del] update.simps [simp del]

definition upsert :: "'w entities \<Rightarrow> api_entity \<Rightarrow> 'w net \<Rightarrow> ('w, api_entity option) outcome" where
  "upsert ep e n =
     (case create ep e False False n of
        (Inl NgsiAlreadyExistsError, n1) \<Rightarrow>
          (case delete ep (AnEntity e) n1 of
             (Inl err, n2) \<Rightarrow> (Inl err, n2)
           | (Inr removed, n2) \<Rightarrow> create ep e False False n2)
      | res \<Rightarrow> res)"

text \<open>
  Modelled from the spec: \<open>JSONLD_CONTEXT\<close> of \<open>api/constants.py\<close>, which is not among the
  sources; the spec gives the relation of the \<open>Link\<close> header as
  \<open>http://www.w3.org/ns/json-ld#context\<close>.
\<close>

definition JSONLD_CONTEXT :: string where
  "JSONLD_CONTEXT = ''http://www.w3.org/ns/json-ld#context''"

definition link_header :: "string \<Rightarrow> string" where
  "link_header ctx = ''<'' @ ctx @ ''>; rel='' @ [CHR 0x22] @ JSONLD_CONTEXT @ [CHR 0x22]
     @ ''; type='' @ [CHR 0x22] @ ''application/ld+json'' @ [CHR 0x22]"

text \<open>The filter parameters shared by \<open>_query\<close> and \<open>count\<close>: a string is stored when it is truthy.\<close>

definition set_if_truthy :: "pydict \<Rightarrow> string \<Rightarrow> string option \<Rightarrow> pydict" where
  "set_if_truthy ps k x =
     (case x of None \<Rightarrow> ps | Some s \<Rightarrow> if s \<noteq> [] then setitem ps k (PStr s) else ps)"

text \<open>Iteration over a decoded JSON body, as the list comprehension of \<open>_query\<close> does.\<close>

fun py_iter :: "pyval \<Rightarrow> error + pyval list" where
  "py_iter (PList xs) = Inr xs"
| "py_iter (PDict d) = Inr (map PStr (keys d))"
| "py_iter (PStr s) = Inr (map (\<lambda>c. PStr [c]) s)"
| "py_iter v = Inl TypeError"

fun map_result :: "('a \<Rightarrow> error + 'b) \<Rightarrow> 'a list \<Rightarrow> error + 'b list" where
  "map_result f [] = Inr []"
| "map_result f (x # xs) =
     (case f x of
        Inl e \<Rightarrow> Inl e
      | Inr y \<Rightarrow> (case map_result f xs of Inl e \<Rightarrow> Inl e | Inr ys \<Rightarrow> Inr (y # ys)))"

text \<open>
  \<open>_query\<close>. \<open>Entity.from_dict\<close> of \<open>ngsildclient.model.entity\<close> is not among the sources and
  is the parameter \<open>from_dict\<close>.
\<close>

definition entities_query ::
  "(pyval \<Rightarrow> error + api_entity) \<Rightarrow> 'w entities \<Rightarrow> string option \<Rightarrow> string option
     \<Rightarrow> string option \<Rightarrow> string option \<Rightarrow> int \<Rightarrow> int \<Rightarrow> 'w net
     \<Rightarrow> ('w, api_entity list) outcome" where
  "entities_query from_dict ep etype q gq ctx limit offset n =
     (let ps = [];
          ps = (if limit \<noteq> 0 then dict_update ps [(''limit'', PInt limit)] else ps);
          ps = (if offset \<noteq> 0 then dict_update ps [(''offset'', PInt offset)] else ps)
      in if etype = None \<and> q = None then
           (Inl (ValueError ''Must indicate at least a type or a query string''), n)
         else
           (let ps = set_if_truthy ps ''type'' etype;
                ps = set_if_truthy ps ''q'' q;
                ps = set_if_truthy ps ''geoQ'' gq;
                hs = [(''Accept'', Some ''application/ld+json''), (''Content-Type'', None)];
                hs = (case ctx of None \<Rightarrow> hs | Some c \<Rightarrow> hs @ [(''Link'', Some (link_header c))]);
                (r, n1) = session_send ep
                   \<lparr>verb = GET, url = base_url ep, json = None, headers = hs, params = ps\<rparr> n
            in case raise_for_status (client ep) r of
                 Some err \<Rightarrow> (Inl err, n1)
               | None \<Rightarrow>
                   (case body r of
                      None \<Rightarrow> (Inl JSONDecodeError, n1)
                    | Some docs \<Rightarrow>
                        (case py_iter docs of
                           Inl err \<Rightarrow> (Inl err, n1)
                         | Inr xs \<Rightarrow>
                             (case map_result from_dict xs of
                                Inl err \<Rightarrow> (Inl err, n1)
                              | Inr es \<Rightarrow> (Inr es, n1))))))"

text \<open>\<open>int(s)\<close> on a header value: an optional sign and decimal digits.\<close>

fun parse_digits :: "string \<Rightarrow> nat \<Rightarrow> nat option" where
  "parse_digits [] acc = Some acc"
| "parse_digits (c # cs) acc =
     (if c \<in> set ''0123456789'' then parse_digits cs (10 * acc + (of_char c - 48))
      else None)"

definition parse_int :: "string \<Rightarrow> int option" where
  "parse_int s =
     (case s of
        [] \<Rightarrow> None
      | c # cs \<Rightarrow>
          if c = CHR ''-'' then (if cs = [] then None
                               else map_option (\<lambda>m. - int m) (parse_digits cs 0))
          else if c = CHR ''+'' then (if cs = [] then None
                                    else map_option int (parse_digits cs 0))
          else map_option int (parse_digits s 0))"

definition count ::
  "'w entities \<Rightarrow> string option \<Rightarrow> string option \<Rightarrow> string option \<Rightarrow> string option
     \<Rightarrow> 'w net \<Rightarrow> ('w, int) outcome" where
  "count ep etype q gq ctx n =
     (let ps = [(''limit'', PInt 0), (''count'', PStr ''true'')]
      in if etype = None \<and> q = None then
           (Inl (ValueError ''Must indicate at least a type or a query string''), n)
         else
           (let ps = set_if_truthy ps ''type'' etype;
                ps = set_if_truthy ps ''q'' q;
                ps = set_if_truthy ps ''geoQ'' gq;
                hs = [(''Accept'', Some ''application/json''), (''Content-Type'', None)];
                hs = (case ctx of None \<Rightarrow> hs | Some c \<Rightarrow> hs @ [(''Link'', Some (link_header c))]);
                (r, n1) = session_send ep
                   \<lparr>verb = GET, url = base_url ep, json = None, headers = hs, params = ps\<rparr> n
            in case raise_for_status (client ep) r of
                 Some err \<Rightarrow> (Inl err, n1)
               | None \<Rightarrow>
                   (case map_of (response_headers r) ''NGSILD-Results-Count'' of
                      None \<Rightarrow> (Inl (KeyError ''NGSILD-Results-Count''), n1)
                    | Some s \<Rightarrow>
                        (case parse_int s of
                           None \<Rightarrow> (Inl (ValueError s), n1)
                         | Some c \<Rightarrow> (Inr c, n1)))))"

section \<open>A reference broker\<close>

text \<open>
  Modelled from the spec: the transport and the broker are external collaborators of
  the library. To run the endpoint on concrete inputs, this is a broker "that enforces
  entity already exists (409) semantics": it stores documents by id; POST of a stored id
  answers 409, POST of a new id stores the document and answers 201 with its
  \<open>Location\<close>; DELETE answers 204 and removes a stored id, 404 otherwise; GET answers 200
  with the stored document, 404 otherwise.
\<close>

type_synonym broker = "(string \<times> pydict) list"

definition plain_response :: "int \<Rightarrow> response" where
  "plain_response code = \<lparr>status_code = code, response_headers = [], body = None\<rparr>"

definition broker_session :: "request \<Rightarrow> broker \<Rightarrow> response \<times> broker" where
  "broker_session rq b =
     (case verb rq of
        POST \<Rightarrow>
          (case json rq of
             None \<Rightarrow> (plain_response 400, b)
           | Some doc \<Rightarrow>
               (case map_of doc ''id'' of
                  Some (PStr i) \<Rightarrow>
                    if i \<in> set (map fst b) then (plain_response 409, b)
                    else (\<lparr>status_code = 201,
                           response_headers = [(''Location'', ''/ngsi-ld/v1/entities/'' @ i)],
                           body = None\<rparr>, b @ [(i, doc)])
                | _ \<Rightarrow> (plain_response 400, b)))
      | DELETE \<Rightarrow>
          (let i = rsplit_last (url rq)
           in if i \<in> set (map fst b) then (plain_response 204, filter (\<lambda>p. fst p \<noteq> i) b)
              else (plain_response 404, b))
      | GET \<Rightarrow>
          (case map_of b (rsplit_last (url rq)) of
             Some doc \<Rightarrow>
               (\<lparr>status_code = 200, response_headers = [], body = Some (PDict doc)\<rparr>, b)
           | None \<Rightarrow> (plain_response 404, b)))"

text \<open>
  Modelled from the spec: \<open>Client.raise_for_status\<close> as seen through the
  \<open>rfc7807_error_handle\<close> decorator (\<open>api/client.py\<close> and \<open>api/exceptions.py\<close> are not among
  the sources). "Conflict is broker status 409", surfaced as \<open>AlreadyExistsError\<close>; "any
  other non-success status is translated into a structured error".
\<close>

definition classify_status :: "response \<Rightarrow> error option" where
  "classify_status r =
     (if status_code r = 409 then Some NgsiAlreadyExistsError
      else if 400 \<le> status_code r \<and> status_code r < 600 then Some (HTTPError (status_code r))
      else None)"

definition reference_entities :: "bool \<Rightarrow> broker entities" where
  "reference_entities ow =
     \<lparr>client = \<lparr>hostname = ''localhost'', port = 1026, overwrite = ow,
                  ignore_errors = False, raise_for_status = classify_status,
                  session = broker_session\<rparr>,
      base_url = ''http://localhost:1026/ngsi-ld/v1/entities''\<rparr>"

definition room_doc :: "int \<Rightarrow> pydict" where
  "room_doc pressure =
     [(''@context'', PList [PStr ''https://uri.etsi.org/ngsi-ld/v1/ngsi-ld-core-context.jsonld'']),
      (''id'', PStr ''urn:ngsi-ld:RoomObserved:Room1''),
      (''type'', PStr ''RoomObserved''),
      (''pressure'', PDict [(''type'', PStr ''Property''), (''value'', PInt pressure)])]"

definition room :: "int \<Rightarrow> api_entity" where
  "room pressure = \<lparr>eid = ''urn:ngsi-ld:RoomObserved:Room1'', payload = room_doc pressure\<rparr>"

definition post_room :: "int \<Rightarrow> request" where
  "post_room pressure =
     \<lparr>verb = POST, url = ''http://localhost:1026/ngsi-ld/v1/entities/'',
      json = Some (room_doc pressure), headers = [], params = []\<rparr>"

definition room_url :: string where
  "room_url = ''http://localhost:1026/ngsi-ld/v1/entities/urn:ngsi-ld:RoomObserved:Room1''"

definition get_room :: request where
  "get_room = \<lparr>verb = GET, url = room_url, json = None, headers = [], params = []\<rparr>"

definition delete_room :: request where
  "delete_room = \<lparr>verb = DELETE, url = room_url, json = None, headers = [], params = []\<rparr>"

text \<open>A broker that holds an older version of the room, and one that holds nothing.\<close>

definition stale_broker :: "broker net" where
  "stale_broker = \<lparr>world = [(''urn:ngsi-ld:RoomObserved:Room1'', room_doc 711)], sent = []\<rparr>"

definition empty_broker :: "broker net" where
  "empty_broker = \<lparr>world = [], sent = []\<rparr>"

text \<open>The request that \<open>create\<close> posts.\<close>

definition post_of :: "'w entities \<Rightarrow> api_entity \<Rightarrow> request" where
  "post_of ep e = \<lparr>verb = POST, url = base_url ep @ ''/'', json = Some (payload e),
     headers = [], params = []\<rparr>"

section \<open>The entity model (\<open>model/entity.py\<close>)\<close>

text \<open>
  Two kinds of objects are shared and mutated by \<open>entity.py\<close>: the context lists
  (\<open>ContextBuilder.DEFAULT\<close> is one list object for the whole program) and the payload
  dictionaries of the entities (\<open>to_dict\<close> hands one out). They live in a store: a list
  of cells, the address of an object being its index. A new object goes to the end of the
  store, so its address is fresh by construction and no allocated cell ever moves.
\<close>

datatype cell = ListCell "string list" | DictCell pydict

type_synonym store = "cell list"

definition alloc :: "store \<Rightarrow> cell \<Rightarrow> addr \<times> store" where
  "alloc s c = (length s, s @ [c])"

definition lookup_list :: "store \<Rightarrow> addr \<Rightarrow> string list option" where
  "lookup_list s a =
     (if a < length s then (case s ! a of ListCell xs \<Rightarrow> Some xs | DictCell d \<Rightarrow> None)
      else None)"

definition lookup_dict :: "store \<Rightarrow> addr \<Rightarrow> pydict option" where
  "lookup_dict s a =
     (if a < length s then (case s ! a of DictCell d \<Rightarrow> Some d | ListCell xs \<Rightarrow> None)
      else None)"

text \<open>The truth value of a Python value, as \<open>not v\<close> tests it.\<close>

fun truthy :: "store \<Rightarrow> pyval \<Rightarrow> bool" where
  "truthy s PNone = False"
| "truthy s (PBool b) = b"
| "truthy s (PInt i) = (i \<noteq> 0)"
| "truthy s (PFloat f) = (case f of Finite m e \<Rightarrow> m \<noteq> 0 | Infinite b \<Rightarrow> True | NaN \<Rightarrow> True)"
| "truthy s (PStr x) = (x \<noteq> [])"
| "truthy s (PList xs) = (xs \<noteq> [])"
| "truthy s (PDict d) = (d \<noteq> [])"
| "truthy s (PTuple xs) = (xs \<noteq> [])"
| "truthy s (PDatetime d) = True"
| "truthy s (PObject c) = True"
| "truthy s (PListRef a) = (case lookup_list s a of Some xs \<Rightarrow> xs \<noteq> [] | None \<Rightarrow> False)"

text \<open>
  \<open>xs.append(x)\<close>, \<open>xs.remove(x)\<close> and \<open>d[k] = v\<close> on the object at an address. An
  address that holds no object of the right kind does not arise from the code; the
  operation fails there.
\<close>

definition list_append :: "store \<Rightarrow> addr \<Rightarrow> string \<Rightarrow> error + store" where
  "list_append s a x =
     (case lookup_list s a of
        Some xs \<Rightarrow> Inr (s[a := ListCell (xs @ [x])])
      | None \<Rightarrow> Inl TypeError)"

definition list_remove :: "store \<Rightarrow> addr \<Rightarrow> string \<Rightarrow> error + store" where
  "list_remove s a x =
     (case lookup_list s a of
        Some xs \<Rightarrow>
          if x \<in> set xs then Inr (s[a := ListCell (remove1 x xs)])
          else Inl (ValueError ''list.remove(x): x not in list'')
      | None \<Rightarrow> Inl TypeError)"

definition obj_setitem :: "store \<Rightarrow> addr \<Rightarrow> string \<Rightarrow> pyval \<Rightarrow> error + store" where
  "obj_setitem s a k v =
     (case lookup_dict s a of
        Some d \<Rightarrow> Inr (s[a := DictCell (setitem d k v)])
      | None \<Rightarrow> Inl TypeError)"




text \<open>The module state: the addresses of the class attributes of \<open>ContextBuilder\<close>.\<close>

record module =
  DEFAULT :: addr
  EMPTY :: addr

definition import_module :: "store \<Rightarrow> module \<times> store" where
  "import_module s =
     (let (d, s1) = alloc s (ListCell [''https://schema.lab.fiware.org/ld/context'',
                 ''https://uri.etsi.org/ngsi-ld/v1/ngsi-ld-core-context.jsonld'']);
          (e, s2) = alloc s1 (ListCell [])
      in (\<lparr>DEFAULT = d, EMPTY = e\<rparr>, s2))"

text \<open>
  A \<open>ContextBuilder\<close> holds a reference \<open>_ctx\<close> to a list; \<open>__init__\<close> stores the
  argument itself, or \<open>ContextBuilder.DEFAULT\<close> itself, never a copy.
\<close>

record ContextBuilder =
  ctx_ref :: addr

definition ContextBuilder_init :: "module \<Rightarrow> addr option \<Rightarrow> ContextBuilder" where
  "ContextBuilder_init m ctx = \<lparr>ctx_ref = (case ctx of None \<Rightarrow> DEFAULT m | Some a \<Rightarrow> a)\<rparr>"

definition add :: "ContextBuilder \<Rightarrow> string \<Rightarrow> store \<Rightarrow> error + ContextBuilder \<times> store" where
  "add self uri s =
     (case list_append s (ctx_ref self) uri of
        Inl err \<Rightarrow> Inl err
      | Inr s' \<Rightarrow> Inr (self, s'))"

definition remove :: "ContextBuilder \<Rightarrow> string \<Rightarrow> store \<Rightarrow> error + ContextBuilder \<times> store" where
  "remove self uri s =
     (case list_remove s (ctx_ref self) uri of
        Inl err \<Rightarrow> Inl err
      | Inr s' \<Rightarrow> Inr (self, s'))"

definition build :: "ContextBuilder \<Rightarrow> addr" where
  "build self = ctx_ref self"

text \<open>
  An \<open>Entity\<close> holds \<open>contextfirst\<close> and a reference to its payload dictionary. The
  default of the \<open>context\<close> argument is \<open>ContextBuilder().build()\<close>, evaluated once when
  the class body runs: the address of \<open>DEFAULT\<close>. \<open>Urn.prefix\<close> is not among the sources
  (\<open>from_dict\<close> calls it on \<open>None\<close>, where the spec's UrnNormalizer says nothing): it is
  the parameter \<open>urn_prefix\<close>, which may fail.
\<close>

record Entity =
  contextfirst :: bool
  payload_ref :: addr

definition Entity_default_context :: "module \<Rightarrow> addr" where
  "Entity_default_context m = build (ContextBuilder_init m None)"

definition Entity_init ::
  "module \<Rightarrow> (pyval \<Rightarrow> error + pyval) \<Rightarrow> pyval \<Rightarrow> pyval \<Rightarrow> pyval option \<Rightarrow> bool \<Rightarrow> store
     \<Rightarrow> error + Entity \<times> store" where
  "Entity_init m urn_prefix ident etype ctx cf s =
     (let cx = (case ctx of None \<Rightarrow> PListRef (Entity_default_context m) | Some c \<Rightarrow> c)
      in case urn_prefix ident of
           Inl err \<Rightarrow> Inl err
         | Inr prefixed \<Rightarrow>
             (let (a, s') = alloc s
                    (DictCell [(''@context'', cx), (''id'', prefixed), (''type'', etype)])
              in Inr (\<lparr>contextfirst = cf, payload_ref = a\<rparr>, s')))"

text \<open>\<open>d.get(k, None)\<close>.\<close>

definition dict_get :: "pydict \<Rightarrow> string \<Rightarrow> pyval" where
  "dict_get d k = (case map_of d k of None \<Rightarrow> PNone | Some v \<Rightarrow> v)"

definition from_dict ::
  "module \<Rightarrow> (pyval \<Rightarrow> error + pyval) \<Rightarrow> pydict \<Rightarrow> store \<Rightarrow> error + Entity \<times> store" where
  "from_dict m urn_prefix doc s =
     (if \<not> truthy s (dict_get doc ''id'') then Inl NgsiMissingIdError
      else if \<not> truthy s (dict_get doc ''type'') then Inl NgsiMissingTypeError
      else if \<not> truthy s (dict_get doc ''@context'') then Inl NgsiMissingContextError
      else
        (case Entity_init m urn_prefix PNone PNone None False s of
           Inl err \<Rightarrow> Inl err
         | Inr (instance, s1) \<Rightarrow>
             (case lookup_dict s1 (payload_ref instance) of
                None \<Rightarrow> Inl TypeError
              | Some p \<Rightarrow>
                  Inr (instance, s1[payload_ref instance := DictCell (dict_update p doc)]))))"

definition setattr :: "Entity \<Rightarrow> string \<Rightarrow> pyval \<Rightarrow> store \<Rightarrow> error + store" where
  "setattr self attr v s = obj_setitem s (payload_ref self) attr v"


text \<open>
  To run the model on concrete inputs: a \<open>Urn.prefix\<close> that normalises a string and
  returns any other value as it is, and the store after
  \<open>Entity("Room:Room1", "Room")\<close> in a fresh program.
\<close>

definition Urn_prefix_lenient :: "pyval \<Rightarrow> error + pyval" where
  "Urn_prefix_lenient v = (case v of PStr x \<Rightarrow> Inr (PStr (urnprefix x)) | _ \<Rightarrow> Inr v)"






definition program_module :: module where
  "program_module = fst (import_module [])"

definition program_store :: store where
  "program_store = snd (import_module [])"

section \<open>Dictionary lemmas\<close>

lemma map_of_setitem: "map_of (setitem d k v) = (map_of d)(k \<mapsto> v)"
  by (induction d k v rule: setitem.induct) auto


lemma map_of_dict_update_other:
  "k \<notin> set (keys other) \<Longrightarrow> map_of (dict_update d other) k = map_of d k"
  by (induction d other rule: dict_update.induct) (auto simp: keys_def map_of_setitem)

lemma map_of_dict_update:
  "map_of (dict_update d other) k =
     (case map_of (rev other) k of Some v \<Rightarrow> Some v | None \<Rightarrow> map_of d k)"
  by (induction d other rule: dict_update.induct)
     (auto simp: map_of_setitem map_add_def split: option.splits)

lemma map_of_dict_update_key:
  "k \<in> set (keys other) \<Longrightarrow> map_of (dict_update d other) k = map_of (rev other) k"
proof -
  assume "k \<in> set (keys other)"
  then have "k \<in> fst ` set (rev other)" by (simp add: keys_def)
  then obtain v where "map_of (rev other) k = Some v"
    by (metis map_of_eq_None_iff not_Some_eq)
  then show ?thesis by (simp add: map_of_dict_update)
qed

lemma isinstance_spec_property_value:
  "isinstance v [C_int, C_float, C_bool, C_str, C_list, C_dict] = spec_property_value v"
  by (cases v) (simp_all add: isinstance_def issubclass_def)

lemma urnprefix_fixed: "urnprefix i = i \<longleftrightarrow> startswith i ''urn:ngsi-ld:''"
  by (auto simp: urnprefix_def NID_PREFIX_def startswith_def)

lemma isoformat_seconds_example:
  "isoformat_seconds (Datetime 2021 10 8 12 5 0 0) = ''2021-10-08T12:05:00Z''"
  by code_simp

lemmas attr_consts = AttrType_PROP_def AttrType_REL_def META_ATTR_UNITCODE_def
  META_ATTR_OBSERVED_AT_def META_ATTR_DATASET_ID_def

lemma build_property_type:
  assumes "build_property from_datetime v unitcode observedat datasetid userdata = Inr doc"
    and "''type'' \<notin> set (keys userdata)"
  shows "map_of doc ''type'' = Some (PStr ''Property'')"
  using assms
  by (auto simp: build_property_def Let_def map_of_setitem map_of_dict_update_other attr_consts
      split: option.splits if_split_asm)

lemma build_property_val:
  assumes "build_property from_datetime v unitcode observedat datasetid userdata = Inr doc"
    and "''value'' \<notin> set (keys userdata)"
  shows "map_of doc ''value'' = Some v"
  using assms
  by (auto simp: build_property_def Let_def map_of_setitem map_of_dict_update_other attr_consts
      split: option.splits if_split_asm)

lemma build_property_userdata:
  assumes "build_property from_datetime v unitcode observedat datasetid userdata = Inr doc"
    and "k \<in> set (keys userdata)"
  shows "map_of doc k = map_of (rev userdata) k"
proof -
  from assms(2) have ne: "userdata \<noteq> []" by (auto simp: keys_def)
  with assms show ?thesis
    by (auto simp: build_property_def Let_def map_of_dict_update_key split: if_split_asm)
qed

lemma build_relationship_type:
  assumes "''type'' \<notin> set (keys userdata)"
  shows "map_of (build_relationship from_datetime s observedat userdata) ''type''
           = Some (PStr ''Relationship'')"
  using assms
  by (auto simp: build_relationship_def Let_def map_of_setitem map_of_dict_update_other
      attr_consts split: option.splits)

lemma build_relationship_object:
  assumes "''object'' \<notin> set (keys userdata)"
  shows "map_of (build_relationship from_datetime s observedat userdata) ''object''
           = Some (PStr (urnprefix s))"
  using assms
  by (auto simp: build_relationship_def Let_def map_of_setitem map_of_dict_update_other
      attr_consts split: option.splits)

lemma build_relationship_userdata:
  assumes "k \<in> set (keys userdata)"
  shows "map_of (build_relationship from_datetime s observedat userdata) k
           = map_of (rev userdata) k"
proof -
  from assms have ne: "userdata \<noteq> []" by (auto simp: keys_def)
  with assms show ?thesis
    by (simp add: build_relationship_def Let_def map_of_dict_update_key)
qed

section \<open>The attribute builders: claims\<close>

text \<open>
  Claim C8. \<open>build_property\<close> returns a document whose \<open>type\<close> is \<open>"Property"\<close> and
  whose \<open>value\<close> is the input, unchanged, if and only if the input is an int, a float, a
  bool, a string, a list or a map (\<open>spec_property_value\<close>); for every other input it
  raises \<open>NgsiUnmatchedAttributeTypeError\<close>. This holds for all metadata arguments and
  for every \<open>userdata\<close> without the keys \<open>type\<close> and \<open>value\<close>, in particular for the
  default, empty one.
\<close>

theorem build_property_value_C8:
  assumes "''type'' \<notin> set (keys userdata)" and "''value'' \<notin> set (keys userdata)"
  shows "((\<exists>doc. build_property from_datetime v unitcode observedat datasetid userdata = Inr doc
             \<and> map_of doc ''type'' = Some (PStr ''Property'')
             \<and> map_of doc ''value'' = Some v)
          \<longleftrightarrow> spec_property_value v)
       \<and> (\<not> spec_property_value v \<longrightarrow>
            build_property from_datetime v unitcode observedat datasetid userdata
              = Inl NgsiUnmatchedAttributeTypeError)"
  using assms
  by (auto simp: build_property_def Let_def isinstance_spec_property_value
      map_of_setitem map_of_dict_update_other attr_consts split: option.splits)

theorem build_property_value_C8_witness:
  "''type'' \<notin> set (keys [(''accuracy'', PInt 2)])
   \<and> ''value'' \<notin> set (keys [(''accuracy'', PInt 2)])
   \<and> (\<exists>doc. build_property isoformat_seconds (PInt 720) (Some ''HPA'') None None
               [(''accuracy'', PInt 2)] = Inr doc
          \<and> map_of doc ''type'' = Some (PStr ''Property'')
          \<and> map_of doc ''value'' = Some (PInt 720))
   \<and> build_property isoformat_seconds (PTuple [PInt 1, PInt 2]) (Some ''HPA'') None None
        [(''accuracy'', PInt 2)] = Inl NgsiUnmatchedAttributeTypeError"
proof -
  have t: "''type'' \<notin> set (keys [(''accuracy'', PInt 2)])"
    and v: "''value'' \<notin> set (keys [(''accuracy'', PInt 2)])"
    by (simp_all add: keys_def)
  have a: "spec_property_value (PInt 720)"
    and b: "\<not> spec_property_value (PTuple [PInt 1, PInt 2])"
    by simp_all
  from build_property_value_C8 [OF t v, of isoformat_seconds "PInt 720" "Some ''HPA''" None None]
    build_property_value_C8 [OF t v, of isoformat_seconds "PTuple [PInt 1, PInt 2]"
      "Some ''HPA''" None None]
    a b t v
  show ?thesis by blast
qed

text \<open>
  Claim C4, as stated, fails: \<open>property |= userdata\<close> is the last step of both builders,
  so a \<open>userdata\<close> that has the key \<open>type\<close>, \<open>value\<close> or \<open>object\<close> replaces what the
  builder stored there.
\<close>

theorem userdata_overrides_C4_counterexample:
  "build_property isoformat_seconds (PInt 23) None None None
     [(''type'', PStr ''Relationship''), (''value'', PInt 0)]
     = Inr [(''type'', PStr ''Relationship''), (''value'', PInt 0)]
   \<and> build_relationship isoformat_seconds ''urn:ngsi-ld:Room:1'' None
     [(''type'', PStr ''Property''), (''object'', PNone)]
     = [(''type'', PStr ''Property''), (''object'', PNone)]"
  by (simp add: build_property_def build_relationship_def isinstance_def issubclass_def
      AttrType_PROP_def AttrType_REL_def)

text \<open>
  Claim C4, amended. The document of a builder carries the builder's own \<open>type\<close> and
  \<open>value\<close> (\<open>object\<close> for a relationship) whenever \<open>userdata\<close> does not have that key;
  every key that \<open>userdata\<close> does have is bound, in the document, to the value that
  \<open>userdata\<close> gives it (the last one, should the association list repeat the key).
\<close>

theorem userdata_merge_C4:
  "(\<forall>doc. build_property from_datetime v unitcode observedat datasetid userdata = Inr doc \<longrightarrow>
      (''type'' \<notin> set (keys userdata) \<longrightarrow> map_of doc ''type'' = Some (PStr ''Property''))
    \<and> (''value'' \<notin> set (keys userdata) \<longrightarrow> map_of doc ''value'' = Some v)
    \<and> (\<forall>k \<in> set (keys userdata). map_of doc k = map_of (rev userdata) k))
   \<and> (''type'' \<notin> set (keys userdata) \<longrightarrow>
        map_of (build_relationship from_datetime s observedat userdata) ''type''
          = Some (PStr ''Relationship''))
   \<and> (''object'' \<notin> set (keys userdata) \<longrightarrow>
        map_of (build_relationship from_datetime s observedat userdata) ''object''
          = Some (PStr (urnprefix s)))
   \<and> (\<forall>k \<in> set (keys userdata).
        map_of (build_relationship from_datetime s observedat userdata) k
          = map_of (rev userdata) k)"
  by (intro conjI allI impI ballI)
     (erule (1) build_property_type build_property_val build_property_userdata
      | erule build_relationship_type build_relationship_object
          build_relationship_userdata)+

theorem userdata_merge_C4_witness:
  "build_property isoformat_seconds (PInt 720) (Some ''HPA'') None None
     [(''accuracy'', PInt 2)]
     = Inr [(''type'', PStr ''Property''), (''value'', PInt 720),
            (''unitCode'', PStr ''HPA''), (''accuracy'', PInt 2)]
   \<and> ''type'' \<notin> set (keys [(''accuracy'', PInt 2)])
   \<and> ''value'' \<notin> set (keys [(''accuracy'', PInt 2)])
   \<and> ''object'' \<notin> set (keys [(''accuracy'', PInt 2)])
   \<and> ''accuracy'' \<in> set (keys [(''accuracy'', PInt 2)])
   \<and> map_of [(''type'', PStr ''Property''), (''value'', PInt 720),
            (''unitCode'', PStr ''HPA''), (''accuracy'', PInt 2)] ''type''
       = Some (PStr ''Property'')
   \<and> map_of [(''type'', PStr ''Property''), (''value'', PInt 720),
            (''unitCode'', PStr ''HPA''), (''accuracy'', PInt 2)] ''accuracy''
       = map_of (rev [(''accuracy'', PInt 2)]) ''accuracy''
   \<and> map_of (build_relationship isoformat_seconds ''Building:1'' None
         [(''accuracy'', PInt 2)]) ''object'' = Some (PStr (urnprefix ''Building:1''))"
proof -
  have e: "build_property isoformat_seconds (PInt 720) (Some ''HPA'') None None
     [(''accuracy'', PInt 2)]
     = Inr [(''type'', PStr ''Property''), (''value'', PInt 720),
            (''unitCode'', PStr ''HPA''), (''accuracy'', PInt 2)]"
    by (simp add: build_property_def isinstance_def issubclass_def attr_consts)
  have k: "''type'' \<notin> set (keys [(''accuracy'', PInt 2)])"
    "''value'' \<notin> set (keys [(''accuracy'', PInt 2)])"
    "''object'' \<notin> set (keys [(''accuracy'', PInt 2)])"
    "''accuracy'' \<in> set (keys [(''accuracy'', PInt 2)])"
    by (simp_all add: keys_def)
  from userdata_merge_C4 [of isoformat_seconds "PInt 720" "Some ''HPA''" None None
      "[(''accuracy'', PInt 2)]" "''Building:1''"] e k
  show ?thesis by blast
qed

text \<open>
  Claim C6, as stated, fails: the dataset id is not stored verbatim but passed through
  \<open>urnprefix\<close>, which prepends \<open>urn:ngsi-ld:\<close> to a bare identifier.
\<close>

theorem datasetid_verbatim_C6_counterexample:
  "build_property isoformat_seconds (PInt 720) None (Some (PStr ''2021-10-08T12:05:00Z''))
     (Some ''sensor1'') []
     = Inr [(''type'', PStr ''Property''), (''value'', PInt 720),
            (''observedAt'', PStr ''2021-10-08T12:05:00Z''),
            (''datasetId'', PStr ''urn:ngsi-ld:sensor1'')]"
  by (simp add: build_property_def isinstance_def issubclass_def urnprefix_def startswith_def
      NID_PREFIX_def normalize_observedat_def
      AttrType_PROP_def META_ATTR_OBSERVED_AT_def META_ATTR_DATASET_ID_def)

text \<open>
  Claim C6, amended. For an accepted value and a \<open>userdata\<close> without the keys
  \<open>observedAt\<close> and \<open>datasetId\<close>, the document has \<open>observedAt\<close> exactly when
  \<open>observedat\<close> is supplied, bound to the caller's value (a datetime converted by
  \<open>from_datetime\<close> first), and \<open>datasetId\<close> exactly when \<open>datasetid\<close> is supplied, bound to
  \<open>urnprefix datasetid\<close>: the caller's string itself if and only if that string already
  starts with \<open>urn:ngsi-ld:\<close>.
\<close>

theorem provenance_metadata_C6:
  assumes "spec_property_value v"
    and "''observedAt'' \<notin> set (keys userdata)" and "''datasetId'' \<notin> set (keys userdata)"
  shows "\<exists>doc. build_property from_datetime v unitcode observedat datasetid userdata = Inr doc
           \<and> map_of doc ''observedAt''
               = map_option (\<lambda>t. case t of PDatetime d \<Rightarrow> PStr (from_datetime d) | _ \<Rightarrow> t)
                   observedat
           \<and> map_of doc ''datasetId'' = map_option (\<lambda>i. PStr (urnprefix i)) datasetid
           \<and> (\<forall>i. datasetid = Some i \<longrightarrow>
                 (map_of doc ''datasetId'' = Some (PStr i)
                    \<longleftrightarrow> startswith i ''urn:ngsi-ld:''))"
proof -
  from assms obtain doc where
    d: "build_property from_datetime v unitcode observedat datasetid userdata = Inr doc"
    and o: "map_of doc ''observedAt''
               = map_option (\<lambda>t. case t of PDatetime d \<Rightarrow> PStr (from_datetime d) | _ \<Rightarrow> t)
                   observedat"
    and i: "map_of doc ''datasetId'' = map_option (\<lambda>i. PStr (urnprefix i)) datasetid"
    by (auto simp: build_property_def Let_def isinstance_spec_property_value
        map_of_setitem map_of_dict_update_other attr_consts normalize_observedat_def
        split: option.splits)
  from i have "\<forall>j. datasetid = Some j \<longrightarrow>
      (map_of doc ''datasetId'' = Some (PStr j) \<longleftrightarrow> startswith j ''urn:ngsi-ld:'')"
    by (simp add: urnprefix_fixed)
  with d o i show ?thesis by blast
qed

theorem provenance_metadata_C6_witness:
  "spec_property_value (PInt 720)
   \<and> ''observedAt'' \<notin> set (keys [(''accuracy'', PInt 2)])
   \<and> ''datasetId'' \<notin> set (keys [(''accuracy'', PInt 2)])
   \<and> (\<exists>doc. build_property isoformat_seconds (PInt 720) None
               (Some (PDatetime (Datetime 2021 10 8 12 5 0 0))) (Some ''sensor1'')
               [(''accuracy'', PInt 2)] = Inr doc
          \<and> map_of doc ''observedAt'' = Some (PStr ''2021-10-08T12:05:00Z'')
          \<and> map_of doc ''datasetId'' = Some (PStr ''urn:ngsi-ld:sensor1''))"
proof -
  have a: "spec_property_value (PInt 720)" by simp
  have k: "''observedAt'' \<notin> set (keys [(''accuracy'', PInt 2)])"
    "''datasetId'' \<notin> set (keys [(''accuracy'', PInt 2)])"
    by (simp_all add: keys_def)
  have u: "urnprefix ''sensor1'' = ''urn:ngsi-ld:sensor1''"
    by (simp add: urnprefix_def startswith_def NID_PREFIX_def)
  from provenance_metadata_C6 [OF a k, of isoformat_seconds None
      "Some (PDatetime (Datetime 2021 10 8 12 5 0 0))" "Some ''sensor1''"]
  have "\<exists>doc. build_property isoformat_seconds (PInt 720) None
               (Some (PDatetime (Datetime 2021 10 8 12 5 0 0))) (Some ''sensor1'')
               [(''accuracy'', PInt 2)] = Inr doc
          \<and> map_of doc ''observedAt'' = Some (PStr ''2021-10-08T12:05:00Z'')
          \<and> map_of doc ''datasetId'' = Some (PStr ''urn:ngsi-ld:sensor1'')"
    by (simp add: isoformat_seconds_example u del: isoformat_seconds.simps) blast
  with a k show ?thesis by blast
qed

section \<open>The entities endpoint: lemmas\<close>

lemma update_unchecked: "update ep e False n = (Inr None, n)"
  by (simp add: update.simps)

lemma create_conflict_skip:
  assumes "session_send ep (post_of ep e) n = (r, n1)" and "status_code r = 409"
  shows "create ep e True overw n = (Inr None, n1)"
  using assms by (simp add: create.simps post_of_def)

lemma create_conflict_overwrite:
  assumes "session_send ep (post_of ep e) n = (r, n1)" and "status_code r = 409"
    and "overw \<or> overwrite (client ep)"
  shows "create ep e False overw n = (Inr None, n1)"
  using assms by (auto simp: create.simps post_of_def update_unchecked)

lemma create_conflict_default:
  assumes "session_send ep (post_of ep e) n = (r, n1)" and "status_code r = 409"
    and "\<not> overw" and "\<not> overwrite (client ep)"
    and "raise_for_status (client ep) r = Some NgsiAlreadyExistsError"
  shows "create ep e False overw n = (Inl NgsiAlreadyExistsError, n1)"
  using assms by (simp add: create.simps post_of_def create_checked_def)

lemma create_sends_one_post:
  "sent (snd (create ep e skip overw n)) = sent n @ [post_of ep e]"
  by (auto simp: create.simps post_of_def create_checked_def update_unchecked
      session_send_def Let_def split: prod.splits option.splits)

lemma upsert_without_conflict:
  assumes "fst (create ep e False False n) \<noteq> Inl NgsiAlreadyExistsError"
  shows "upsert ep e n = create ep e False False n"
  using assms
  by (auto simp: upsert_def split: prod.splits sum.splits error.splits)

lemma upsert_on_conflict:
  assumes "create ep e False False n = (Inl NgsiAlreadyExistsError, n1)"
  shows "upsert ep e n =
     (case delete ep (AnEntity e) n1 of
        (Inl err, n2) \<Rightarrow> (Inl err, n2)
      | (Inr removed, n2) \<Rightarrow> create ep e False False n2)"
  using assms by (simp add: upsert_def)

lemma update_absent:
  assumes "exists ep (AnEntity e) n = (Inr False, n1)"
  shows "update ep e True n = (Inr None, n1)"
  using assms by (simp add: update.simps)

lemmas reference_defs = reference_entities_def broker_session_def classify_status_def
  plain_response_def room_def room_doc_def post_room_def stale_broker_def empty_broker_def
  session_send_def id_of_def rsplit_last_def response_ok_def room_url_def get_room_def
  delete_room_def create_checked_def delete_def exists_def keys_def Let_def

text \<open>
  The endpoint against the reference broker, with the client's \<open>overwrite\<close> switch off:
  \<open>upsert\<close> of a new id posts once; \<open>upsert\<close> of a stored id posts, deletes and posts
  again, and the broker ends with the new document; \<open>update\<close> with the existence check
  replaces a stored entity and does nothing for an unknown one.
\<close>

lemma upsert_reference_new:
  "upsert (reference_entities False) (room 720) empty_broker
     = (Inr (Some (room 720)),
        \<lparr>world = [(''urn:ngsi-ld:RoomObserved:Room1'', room_doc 720)],
         sent = [post_room 720]\<rparr>)"
  by (simp add: upsert_def create.simps update.simps reference_defs)

lemma upsert_reference_stored:
  "upsert (reference_entities False) (room 720) stale_broker
     = (Inr (Some (room 720)),
        \<lparr>world = [(''urn:ngsi-ld:RoomObserved:Room1'', room_doc 720)],
         sent = [post_room 720, delete_room, post_room 720]\<rparr>)"
  by (simp add: upsert_def create.simps update.simps reference_defs)

lemma update_reference_stored:
  "update (reference_entities False) (room 720) True stale_broker
     = (Inr (Some (room 720)),
        \<lparr>world = [(''urn:ngsi-ld:RoomObserved:Room1'', room_doc 720)],
         sent = [get_room, delete_room, post_room 720]\<rparr>)"
  by (simp add: create.simps update.simps reference_defs)

lemma update_reference_unknown:
  "update (reference_entities False) (room 720) True empty_broker
     = (Inr None, \<lparr>world = [], sent = [get_room]\<rparr>)"
  by (simp add: create.simps update.simps reference_defs)

lemma create_reference_conflict:
  "create (reference_entities False) (room 720) False False stale_broker
     = (Inl NgsiAlreadyExistsError,
        \<lparr>world = [(''urn:ngsi-ld:RoomObserved:Room1'', room_doc 711)],
         sent = [post_room 720]\<rparr>)
   \<and> create (reference_entities False) (room 720) True False stale_broker
     = (Inr None,
        \<lparr>world = [(''urn:ngsi-ld:RoomObserved:Room1'', room_doc 711)],
         sent = [post_room 720]\<rparr>)"
  by (simp add: create.simps update.simps reference_defs)

section \<open>The entities endpoint: claims\<close>

text \<open>
  Claim C1 says that \<open>create\<close>, on status 409 with \<open>overwrite\<close> set, deletes and creates
  the entity through \<open>update(check_exists=False)\<close> and returns it. The code does call
  \<open>update\<close> so, but \<open>update\<close> with \<open>check_exists = False\<close> skips both the deletion and the
  creation: the call returns \<open>None\<close> after the one refused POST, and the broker keeps the
  old document. (The other two cases of the claim hold: \<open>create_conflict_skip\<close>,
  \<open>create_conflict_default\<close>.)
\<close>

theorem create_overwrite_C1:
  "create (reference_entities False) (room 720) False True stale_broker
     = (Inr None, \<lparr>world = [(''urn:ngsi-ld:RoomObserved:Room1'', room_doc 711)],
                   sent = [post_room 720]\<rparr>)"
  by (simp add: create.simps update.simps reference_defs)

text \<open>
  Claim C2 says that \<open>update\<close> replaces the entity whenever \<open>check_exists\<close> is false. In
  the code the replacement is guarded by \<open>check_exists and self.exists(entity)\<close>, so with
  \<open>check_exists = False\<close> the call issues no request at all and returns \<open>None\<close>, here
  against a broker that holds an older version of the entity.
\<close>

theorem update_unchecked_C2:
  "update (reference_entities False) (room 720) False stale_broker = (Inr None, stale_broker)"
  by (simp add: update.simps)

text \<open>
  Claim C3 says that \<open>upsert\<close> of a stored id issues POST, DELETE, POST. With the client's
  \<open>overwrite\<close> switch on, the first \<open>create\<close> takes its overwrite branch, which returns
  \<open>None\<close> without raising (see C1): \<open>upsert\<close> issues the one refused POST, returns \<open>None\<close>
  and the broker keeps the old document. (With the switch off the claim holds:
  \<open>upsert_reference_new\<close>, \<open>upsert_reference_stored\<close>.)
\<close>

theorem upsert_overwriting_client_C3:
  "upsert (reference_entities True) (room 720) stale_broker
     = (Inr None, \<lparr>world = [(''urn:ngsi-ld:RoomObserved:Room1'', room_doc 711)],
                   sent = [post_room 720]\<rparr>)"
  by (simp add: upsert_def create.simps update.simps reference_defs)

text \<open>
  Claim C9. When both \<open>type\<close> and \<open>q\<close> are \<open>None\<close>, \<open>_query\<close> and \<open>count\<close> raise
  \<open>ValueError\<close> and leave the network as it was: no request is added to the log, whatever
  the other arguments are.
\<close>

theorem query_count_require_filter_C9:
  "entities_query entity_of ep None None gq ctx limit offset n
     = (Inl (ValueError ''Must indicate at least a type or a query string''), n)
   \<and> count ep None None gq ctx n
     = (Inl (ValueError ''Must indicate at least a type or a query string''), n)"
  by (simp add: entities_query_def count_def Let_def)

section \<open>The entity model: lemmas\<close>

lemma lookup_dict_alloc: "lookup_dict (s @ [DictCell d]) (length s) = Some d"
  by (simp add: lookup_dict_def)


lemma lookup_list_append: "a < length s \<Longrightarrow> lookup_list (s @ ext) a = lookup_list s a"
  by (simp add: lookup_list_def nth_append)


lemma lookup_list_Some_less: "lookup_list s a = Some xs \<Longrightarrow> a < length s"
  by (simp add: lookup_list_def split: if_splits)

lemma lookup_list_update:
  "a < length s \<Longrightarrow> lookup_list (s[a := ListCell ys]) a = Some ys"
  by (simp add: lookup_list_def)


lemma program_loaded:
  "program_module = \<lparr>DEFAULT = 0, EMPTY = 1\<rparr>"
  "program_store = [ListCell [''https://schema.lab.fiware.org/ld/context'',
                ''https://uri.etsi.org/ngsi-ld/v1/ngsi-ld-core-context.jsonld''], ListCell []]"
  by (simp_all add: program_module_def program_store_def import_module_def alloc_def)












section \<open>The entity model: claims\<close>

text \<open>
  Claim C10. A \<open>ContextBuilder\<close> constructed without argument refers to the list object
  \<open>ContextBuilder.DEFAULT\<close> itself. Whenever that object is in the store, \<open>add\<close> on a
  default-constructed builder appends the URI to it, the list that a default-constructed
  builder builds afterwards ends with the URI, and every entity constructed afterwards
  with the default \<open>context\<close> argument has that same list object, with the URI, as its
  \<open>@context\<close>.
\<close>

theorem shared_default_context_C10:
  assumes "lookup_list s (DEFAULT m) = Some xs"
  shows "ctx_ref (ContextBuilder_init m None) = DEFAULT m
    \<and> (\<exists>s'. add (ContextBuilder_init m None) uri s = Inr (ContextBuilder_init m None, s')
         \<and> lookup_list s' (build (ContextBuilder_init m None)) = Some (xs @ [uri])
         \<and> (\<forall>ident etype cf e s''.
              Entity_init m urn_prefix ident etype None cf s' = Inr (e, s'') \<longrightarrow>
                (\<exists>p. lookup_dict s'' (payload_ref e) = Some p
                     \<and> map_of p ''@context'' = Some (PListRef (DEFAULT m)))
                \<and> lookup_list s'' (DEFAULT m) = Some (xs @ [uri])))"
proof -
  let ?cb = "ContextBuilder_init m None"
  let ?s' = "s[DEFAULT m := ListCell (xs @ [uri])]"
  from assms have less: "DEFAULT m < length s" by (rule lookup_list_Some_less)
  have ref: "ctx_ref ?cb = DEFAULT m" by (simp add: ContextBuilder_init_def)
  have added: "add ?cb uri s = Inr (?cb, ?s')"
    using assms by (simp add: add_def list_append_def ref)
  have seen: "lookup_list ?s' (build ?cb) = Some (xs @ [uri])"
    using less by (simp add: build_def ref lookup_list_update)
  have ent: "(\<exists>p. lookup_dict s'' (payload_ref e) = Some p
                     \<and> map_of p ''@context'' = Some (PListRef (DEFAULT m)))
                \<and> lookup_list s'' (DEFAULT m) = Some (xs @ [uri])"
    if "Entity_init m urn_prefix ident etype None cf ?s' = Inr (e, s'')"
    for ident etype cf e s''
  proof -
    from that obtain prefixed where
      e: "e = \<lparr>contextfirst = cf, payload_ref = length ?s'\<rparr>"
      and s'': "s'' = ?s' @ [DictCell [(''@context'', PListRef (DEFAULT m)), (''id'', prefixed),
          (''type'', etype)]]"
      by (auto simp: Entity_init_def Entity_default_context_def build_def ref alloc_def
          split: sum.splits)
    from less have "lookup_list s'' (DEFAULT m) = Some (xs @ [uri])"
      by (simp add: s'' lookup_list_append lookup_list_update)
    moreover have "lookup_dict s'' (payload_ref e) = Some [(''@context'', PListRef (DEFAULT m)),
          (''id'', prefixed), (''type'', etype)]"
      unfolding e s'' using lookup_dict_alloc [of ?s'] by simp
    ultimately show ?thesis by simp
  qed
  from ref added seen ent show ?thesis by blast
qed

theorem shared_default_context_C10_witness:
  "lookup_list program_store (DEFAULT program_module)
     = Some [''https://schema.lab.fiware.org/ld/context'',
             ''https://uri.etsi.org/ngsi-ld/v1/ngsi-ld-core-context.jsonld'']
   \<and> (\<exists>s' e s''.
         add (ContextBuilder_init program_module None) ''https://example.org/ctx'' program_store
            = Inr (ContextBuilder_init program_module None, s')
        \<and> lookup_list s' (build (ContextBuilder_init program_module None))
            = Some [''https://schema.lab.fiware.org/ld/context'',
                    ''https://uri.etsi.org/ngsi-ld/v1/ngsi-ld-core-context.jsonld'',
                    ''https://example.org/ctx'']
        \<and> Entity_init program_module Urn_prefix_lenient (PStr ''Room:Room1'') (PStr ''Room'')
              None False s' = Inr (e, s'')
        \<and> (\<exists>p. lookup_dict s'' (payload_ref e) = Some p
               \<and> map_of p ''@context'' = Some (PListRef (DEFAULT program_module)))
        \<and> lookup_list s'' (DEFAULT program_module)
            = Some [''https://schema.lab.fiware.org/ld/context'',
                    ''https://uri.etsi.org/ngsi-ld/v1/ngsi-ld-core-context.jsonld'',
                    ''https://example.org/ctx''])"
proof -
  let ?xs = "[''https://schema.lab.fiware.org/ld/context'',
             ''https://uri.etsi.org/ngsi-ld/v1/ngsi-ld-core-context.jsonld'']"
  let ?cb = "ContextBuilder_init program_module None"
  have h: "lookup_list program_store (DEFAULT program_module) = Some ?xs"
    by (simp add: program_loaded lookup_list_def)
  from shared_default_context_C10 [OF h, of "''https://example.org/ctx''" Urn_prefix_lenient]
  obtain s' where
    a: "add ?cb ''https://example.org/ctx'' program_store = Inr (?cb, s')"
    and l: "lookup_list s' (build ?cb) = Some (?xs @ [''https://example.org/ctx''])"
    and e: "\<forall>ident etype cf e s''.
              Entity_init program_module Urn_prefix_lenient ident etype None cf s' = Inr (e, s'')
              \<longrightarrow> (\<exists>p. lookup_dict s'' (payload_ref e) = Some p
                       \<and> map_of p ''@context'' = Some (PListRef (DEFAULT program_module)))
                  \<and> lookup_list s'' (DEFAULT program_module)
                      = Some (?xs @ [''https://example.org/ctx''])"
    by blast
  obtain e0 s0 where
    i: "Entity_init program_module Urn_prefix_lenient (PStr ''Room:Room1'') (PStr ''Room'')
          None False s' = Inr (e0, s0)"
    by (simp add: Entity_init_def Urn_prefix_lenient_def alloc_def)
  from e i have "(\<exists>p. lookup_dict s0 (payload_ref e0) = Some p
                       \<and> map_of p ''@context'' = Some (PListRef (DEFAULT program_module)))
                  \<and> lookup_list s0 (DEFAULT program_module)
                      = Some (?xs @ [''https://example.org/ctx''])"
    by blast
  with h a l i show ?thesis by auto
qed







end
